theory Spec2Isabelle
  imports Main "HOL-Library.Finite_Map"
begin

section \<open>The request schema of \<open>api/api_resquest.py\<close>\<close>

text \<open>
  The module declares four classes and nothing else:
  \<^verbatim>\<open>
  class RESTRequest(ABC):
      pass

  @dataclass
  class Identifier:
      database_name: str
      object_name: str

  @dataclass
  class CreateDatabaseRequest(RESTRequest):
      name: str
      properties: Dict[str, str]

  @dataclass
  class AlterDatabaseRequest(RESTRequest):
      removals: List[str]
      updates: Dict[str, str]
  \<close>
  Each dataclass is a record with the declared fields, in the declared order. A
  \<open>str\<close> is a \<open>string\<close>, a \<open>List[str]\<close> a \<open>string list\<close>, and a \<open>Dict[str, str]\<close>
  a finite map: a Python dict has finitely many, unique keys and two dicts are equal
  when they hold the same key-value pairs, whatever the insertion order.
\<close>

subsection \<open>Data\<close>

record Identifier =
  database_name :: string
  object_name :: string

record CreateDatabaseRequest =
  name :: string
  properties :: "(string, string) fmap"

record AlterDatabaseRequest =
  removals :: "string list"
  updates :: "(string, string) fmap"

text \<open>
  The classes of the module and the two bases it imports or inherits implicitly
  (\<open>ABC\<close> from \<open>abc\<close>, and \<open>object\<close>).
\<close>

datatype cls =
  C_object
  | C_ABC
  | C_RESTRequest
  | C_Identifier
  | C_CreateDatabaseRequest
  | C_AlterDatabaseRequest

text \<open>
  An instance of one of the module's classes. \<open>RESTRequest\<close> declares no field, so its
  instances carry none.
\<close>

datatype pyobject =
  Obj_RESTRequest
  | Obj_Identifier Identifier
  | Obj_CreateDatabaseRequest CreateDatabaseRequest
  | Obj_AlterDatabaseRequest AlterDatabaseRequest

text \<open>
  The exceptions a caller could see. \<open>TypeError\<close> is what Python raises when a class
  with abstract methods is instantiated, \<open>FrozenInstanceError\<close> what a frozen dataclass
  raises on assignment. \<open>ValidationError\<close> (with the name of the offending field) and
  \<open>TypeMismatchError\<close> are the error kinds of the specification; the module defines
  neither class and has no \<open>raise\<close> statement.
\<close>

datatype error =
  ValidationError string
  | TypeMismatchError
  | TypeError
  | FrozenInstanceError

type_synonym 'a result = "error + 'a"

text \<open>Sequencing of two fallible steps: an exception of the first step propagates.\<close>

fun and_then :: "'a result \<Rightarrow> ('a \<Rightarrow> 'b result) \<Rightarrow> 'b result" where
  "and_then (Inl e) f = Inl e"
| "and_then (Inr x) f = f x"

subsection \<open>Construction\<close>

text \<open>
  \<open>@dataclass\<close> generates an \<open>__init__\<close> that takes one argument per field and binds
  each field to its argument, in order. No class defines \<open>__post_init__\<close>, so the
  generated \<open>__init__\<close> does nothing else.
\<close>

definition Identifier_init :: "string \<Rightarrow> string \<Rightarrow> Identifier result" where
  "Identifier_init d o' = Inr \<lparr>database_name = d, object_name = o'\<rparr>"

definition CreateDatabaseRequest_init ::
  "string \<Rightarrow> (string, string) fmap \<Rightarrow> CreateDatabaseRequest result" where
  "CreateDatabaseRequest_init n p = Inr \<lparr>name = n, properties = p\<rparr>"

definition AlterDatabaseRequest_init ::
  "string list \<Rightarrow> (string, string) fmap \<Rightarrow> AlterDatabaseRequest result" where
  "AlterDatabaseRequest_init r u = Inr \<lparr>removals = r, updates = u\<rparr>"

subsection \<open>The class hierarchy and the instance test\<close>

text \<open>
  The bases of each class, as the class statements give them: \<open>RESTRequest(ABC)\<close>,
  the two request classes with \<open>RESTRequest\<close>, and \<open>Identifier\<close> with no base written,
  hence \<open>object\<close>.
\<close>

fun bases :: "cls \<Rightarrow> cls list" where
  "bases C_object = []"
| "bases C_ABC = [C_object]"
| "bases C_RESTRequest = [C_ABC]"
| "bases C_Identifier = [C_object]"
| "bases C_CreateDatabaseRequest = [C_RESTRequest]"
| "bases C_AlterDatabaseRequest = [C_RESTRequest]"

text \<open>
  The length of the chain of bases above a class; it decreases from a class to its base
  and bounds the walk up the hierarchy.
\<close>

fun depth :: "cls \<Rightarrow> nat" where
  "depth C_object = 0"
| "depth C_ABC = 1"
| "depth C_RESTRequest = 2"
| "depth C_Identifier = 1"
| "depth C_CreateDatabaseRequest = 3"
| "depth C_AlterDatabaseRequest = 3"

text \<open>
  The method resolution order: the class, then the order of its base. Every class here
  has at most one base, so Python's linearisation is this chain.
\<close>

function mro :: "cls \<Rightarrow> cls list" where
  "mro c = c # concat (map mro (bases c))"
  by pat_completeness auto
termination
proof (relation "measure depth")
  show "wf (measure depth)"
    by simp
next
  fix c b
  assume "b \<in> set (bases c)"
  then show "(b, c) \<in> measure depth"
    by (cases c) auto
qed

declare mro.simps [simp del]

fun type_of :: "pyobject \<Rightarrow> cls" where
  "type_of Obj_RESTRequest = C_RESTRequest"
| "type_of (Obj_Identifier i) = C_Identifier"
| "type_of (Obj_CreateDatabaseRequest c) = C_CreateDatabaseRequest"
| "type_of (Obj_AlterDatabaseRequest a) = C_AlterDatabaseRequest"

text \<open>
  \<open>isinstance(v, c)\<close>: whether \<open>c\<close> is in the resolution order of the class of \<open>v\<close>.
  No class of the module overrides \<open>__instancecheck__\<close> or registers a virtual
  subclass. The test returns a boolean for every object; it is the only test of
  "is a RESTRequest" the module supports, and the module defines no function that
  raises on a negative answer.
\<close>

definition isinstance :: "pyobject \<Rightarrow> cls \<Rightarrow> bool result" where
  "isinstance v c = Inr (List.member (mro (type_of v)) c)"

text \<open>
  The names a class declares abstract. No class body contains a method at all
  (\<open>RESTRequest\<close> is \<open>pass\<close>, the dataclasses declare fields only), so the set that
  \<open>ABCMeta\<close> computes is empty for each.
\<close>

fun abstractmethods :: "cls \<Rightarrow> string list" where
  "abstractmethods c = []"

text \<open>
  \<open>RESTRequest()\<close>: \<open>object.__new__\<close> raises \<open>TypeError\<close> when the class has abstract
  methods left, and returns a new instance otherwise.
\<close>

definition RESTRequest_init :: "pyobject result" where
  "RESTRequest_init =
     (if abstractmethods C_RESTRequest = [] then Inr Obj_RESTRequest else Inl TypeError)"

subsection \<open>What \<open>@dataclass\<close> generates besides \<open>__init__\<close>\<close>

text \<open>
  Each decorator is written bare, \<open>@dataclass\<close>, so every parameter keeps its default:
  \<open>eq=True\<close> and \<open>frozen=False\<close>.
\<close>

definition frozen :: "cls \<Rightarrow> bool" where
  "frozen c = False"

text \<open>
  Attribute assignment \<open>obj.field = v\<close>. A frozen dataclass gets a \<open>__setattr__\<close> that
  raises \<open>FrozenInstanceError\<close>; otherwise the assignment rebinds the field. The
  object is changed in place in Python; here the changed object is returned.
\<close>

definition set_database_name :: "Identifier \<Rightarrow> string \<Rightarrow> Identifier result" where
  "set_database_name i v =
     (if frozen C_Identifier then Inl FrozenInstanceError else Inr (i\<lparr>database_name := v\<rparr>))"

definition set_object_name :: "Identifier \<Rightarrow> string \<Rightarrow> Identifier result" where
  "set_object_name i v =
     (if frozen C_Identifier then Inl FrozenInstanceError else Inr (i\<lparr>object_name := v\<rparr>))"

definition set_name :: "CreateDatabaseRequest \<Rightarrow> string \<Rightarrow> CreateDatabaseRequest result" where
  "set_name c v =
     (if frozen C_CreateDatabaseRequest then Inl FrozenInstanceError
      else Inr (c\<lparr>name := v\<rparr>))"

definition set_properties ::
  "CreateDatabaseRequest \<Rightarrow> (string, string) fmap \<Rightarrow> CreateDatabaseRequest result" where
  "set_properties c v =
     (if frozen C_CreateDatabaseRequest then Inl FrozenInstanceError
      else Inr (c\<lparr>properties := v\<rparr>))"

definition set_removals ::
  "AlterDatabaseRequest \<Rightarrow> string list \<Rightarrow> AlterDatabaseRequest result" where
  "set_removals a v =
     (if frozen C_AlterDatabaseRequest then Inl FrozenInstanceError
      else Inr (a\<lparr>removals := v\<rparr>))"

definition set_updates ::
  "AlterDatabaseRequest \<Rightarrow> (string, string) fmap \<Rightarrow> AlterDatabaseRequest result" where
  "set_updates a v =
     (if frozen C_AlterDatabaseRequest then Inl FrozenInstanceError
      else Inr (a\<lparr>updates := v\<rparr>))"

text \<open>
  The generated \<open>__eq__\<close> compares, for two instances of the same class, the tuples of
  their fields in declaration order: \<open>(self.f1, self.f2) == (other.f1, other.f2)\<close>.
  Both arguments below have the class in their type, so the test
  \<open>other.__class__ is self.__class__\<close> of the generated method holds.
\<close>

definition Identifier_eq :: "Identifier \<Rightarrow> Identifier \<Rightarrow> bool" where
  "Identifier_eq a b =
     ((database_name a, object_name a) = (database_name b, object_name b))"

definition CreateDatabaseRequest_eq ::
  "CreateDatabaseRequest \<Rightarrow> CreateDatabaseRequest \<Rightarrow> bool" where
  "CreateDatabaseRequest_eq a b = ((name a, properties a) = (name b, properties b))"

definition AlterDatabaseRequest_eq ::
  "AlterDatabaseRequest \<Rightarrow> AlterDatabaseRequest \<Rightarrow> bool" where
  "AlterDatabaseRequest_eq a b = ((removals a, updates a) = (removals b, updates b))"

subsection \<open>Resolution orders of the module's classes\<close>

lemma mro_object: "mro C_object = [C_object]"
  by (simp add: mro.simps)

lemma mro_ABC: "mro C_ABC = [C_ABC, C_object]"
  by (simp add: mro.simps [of C_ABC] mro_object)

lemma mro_RESTRequest: "mro C_RESTRequest = [C_RESTRequest, C_ABC, C_object]"
  by (simp add: mro.simps [of C_RESTRequest] mro_ABC)

lemma mro_Identifier: "mro C_Identifier = [C_Identifier, C_object]"
  by (simp add: mro.simps [of C_Identifier] mro_object)

lemma mro_CreateDatabaseRequest:
  "mro C_CreateDatabaseRequest = [C_CreateDatabaseRequest, C_RESTRequest, C_ABC, C_object]"
  by (simp add: mro.simps [of C_CreateDatabaseRequest] mro_RESTRequest)

lemma mro_AlterDatabaseRequest:
  "mro C_AlterDatabaseRequest = [C_AlterDatabaseRequest, C_RESTRequest, C_ABC, C_object]"
  by (simp add: mro.simps [of C_AlterDatabaseRequest] mro_RESTRequest)

lemmas mro_eqs =
  mro_object mro_ABC mro_RESTRequest mro_Identifier mro_CreateDatabaseRequest
  mro_AlterDatabaseRequest

section \<open>Properties\<close>

subsection \<open>Construction of an \<open>Identifier\<close>\<close>

text \<open>
  C4. For every pair of non-empty strings \<open>d\<close> and \<open>o\<close>, constructing
  \<open>Identifier(database_name=d, object_name=o)\<close> succeeds, and the constructed value's
  \<open>database_name\<close> equals \<open>d\<close> and its \<open>object_name\<close> equals \<open>o\<close> exactly: nothing is
  normalised or trimmed.
\<close>

theorem Identifier_roundtrip:
  assumes "d \<noteq> []" and "ob \<noteq> []"
  shows "\<exists>i. Identifier_init d ob = Inr i \<and> database_name i = d \<and> object_name i = ob"
  by (simp add: Identifier_init_def)

text \<open>Surrounding and inner blanks and the letter case are kept.\<close>

theorem Identifier_roundtrip_witness:
  "'' Sales '' \<noteq> [] \<and> ''T 1'' \<noteq> [] \<and>
   (\<exists>i. Identifier_init '' Sales '' ''T 1'' = Inr i \<and>
        database_name i = '' Sales '' \<and> object_name i = ''T 1'')"
  using Identifier_roundtrip [of "'' Sales ''" "''T 1''"] by simp

text \<open>
  C2 says that construction fails with \<open>ValidationError\<close> when either name is empty.
  \<open>Identifier("", "orders")\<close> returns an instance instead.
\<close>

theorem Identifier_empty_counterexample:
  "Identifier_init [] ''orders'' = Inr \<lparr>database_name = [], object_name = ''orders''\<rparr>"
  by (simp add: Identifier_init_def)

text \<open>
  C2, as the code has it. For every pair of strings where \<open>database_name\<close> or
  \<open>object_name\<close> is the empty string, constructing an \<open>Identifier\<close> succeeds and the
  instance holds the two strings as given; no \<open>ValidationError\<close> is raised.
\<close>

theorem Identifier_init_empty_accepted:
  assumes "d = [] \<or> ob = []"
  shows "\<exists>i. Identifier_init d ob = Inr i \<and> database_name i = d \<and> object_name i = ob"
  by (simp add: Identifier_init_def)

theorem Identifier_init_empty_accepted_witness:
  "([] = ([]::string) \<or> ''orders'' = []) \<and>
   (\<exists>i. Identifier_init [] ''orders'' = Inr i \<and>
        database_name i = [] \<and> object_name i = ''orders'')"
  using Identifier_init_empty_accepted [of "[]" "''orders''"] by simp

subsection \<open>Construction of the requests\<close>

text \<open>
  C3 says that \<open>CreateDatabaseRequest(name="", properties={})\<close> fails with a
  \<open>ValidationError\<close> naming \<open>name\<close>. It returns an instance.
\<close>

theorem CreateDatabaseRequest_empty_name_counterexample:
  "CreateDatabaseRequest_init [] fmempty = Inr \<lparr>name = [], properties = fmempty\<rparr>"
  by (simp add: CreateDatabaseRequest_init_def)

text \<open>
  C3, as the code has it. Constructing a \<open>CreateDatabaseRequest\<close> with an empty-string
  name, whatever the properties, succeeds: the instance has the name \<open>""\<close> and the
  given properties, and no \<open>ValidationError\<close> is raised.
\<close>

theorem CreateDatabaseRequest_init_empty_name:
  "CreateDatabaseRequest_init [] p = Inr \<lparr>name = [], properties = p\<rparr>"
  by (simp add: CreateDatabaseRequest_init_def)

text \<open>
  C1 says that construction of an \<open>AlterDatabaseRequest\<close> fails with \<open>ValidationError\<close>
  exactly when a key is both removed and updated.
  \<open>AlterDatabaseRequest(removals=["owner"], updates={"owner": "team_b"})\<close> has the key
  \<open>owner\<close> on both sides and returns an instance.
\<close>

theorem AlterDatabaseRequest_shared_key_counterexample:
  "''owner'' \<in> set [''owner''] \<inter> fmdom' (fmupd ''owner'' ''team_b'' fmempty) \<and>
   AlterDatabaseRequest_init [''owner''] (fmupd ''owner'' ''team_b'' fmempty) =
     Inr \<lparr>removals = [''owner''], updates = fmupd ''owner'' ''team_b'' fmempty\<rparr>"
  by (simp add: AlterDatabaseRequest_init_def)

text \<open>
  C1, as the code has it. Constructing an \<open>AlterDatabaseRequest\<close> succeeds for every
  removals sequence and updates mapping, whether their keys are disjoint (as in
  \<open>removals=["legacy_flag"], updates={"region": "us-east"}\<close>) or shared; the instance
  holds both as given and no \<open>ValidationError\<close> is raised.
\<close>

theorem AlterDatabaseRequest_init_any_keys:
  "\<exists>a. AlterDatabaseRequest_init r u = Inr a \<and> removals a = r \<and> updates a = u"
  by (simp add: AlterDatabaseRequest_init_def)

text \<open>
  C7. Constructing an \<open>AlterDatabaseRequest\<close> with \<open>removals=["a", "a"]\<close> and one with
  \<open>removals=["a"]\<close>, the updates being the same, both succeed. The first instance
  holds the removals \<open>["a", "a"]\<close>, the second \<open>["a"]\<close>, and both hold the given
  updates. A consumer that removes duplicates from the removals sees the same keys in
  both: the set of removals is \<open>{"a"}\<close> for each, and the sequence with duplicates
  dropped is \<open>["a"]\<close> for each.
\<close>

theorem duplicate_removals_equivalent:
  "\<exists>x y. AlterDatabaseRequest_init [''a'', ''a''] u = Inr x \<and>
         AlterDatabaseRequest_init [''a''] u = Inr y \<and>
         removals x = [''a'', ''a''] \<and> removals y = [''a''] \<and>
         updates x = u \<and> updates y = u \<and>
         set (removals x) = {''a''} \<and> set (removals y) = {''a''} \<and>
         set (removals x) = set (removals y) \<and>
         remdups (removals x) = [''a''] \<and>
         remdups (removals x) = remdups (removals y) \<and>
         updates x = updates y"
  by (simp add: AlterDatabaseRequest_init_def)

text \<open>
  C9. Construction is total: for all strings, sequences of strings and mappings,
  including empty strings and removals and updates that share keys, each of the three
  constructors returns an instance holding its arguments unchanged, and none returns an
  error of any kind.
\<close>

theorem init_total:
  "Identifier_init d ob \<noteq> Inl e \<and>
   CreateDatabaseRequest_init n p \<noteq> Inl e \<and>
   AlterDatabaseRequest_init r u \<noteq> Inl e \<and>
   Identifier_init d ob = Inr \<lparr>database_name = d, object_name = ob\<rparr> \<and>
   CreateDatabaseRequest_init n p = Inr \<lparr>name = n, properties = p\<rparr> \<and>
   AlterDatabaseRequest_init r u = Inr \<lparr>removals = r, updates = u\<rparr>"
  by (simp add: Identifier_init_def CreateDatabaseRequest_init_def
      AlterDatabaseRequest_init_def)

subsection \<open>The instance test\<close>

text \<open>
  C5 says that the check whether a value is a request fails with \<open>TypeMismatchError\<close>
  on a value that is no request, such as an \<open>Identifier\<close>. The instance test against
  \<open>RESTRequest\<close> answers \<open>False\<close> there and raises nothing.
\<close>

theorem isinstance_Identifier_counterexample:
  "isinstance (Obj_Identifier \<lparr>database_name = ''sales'', object_name = ''orders''\<rparr>)
     C_RESTRequest = Inr False"
  by (simp add: isinstance_def mro_Identifier)

text \<open>
  C5, as the code has it. Every constructed \<open>CreateDatabaseRequest\<close> and
  \<open>AlterDatabaseRequest\<close> is an instance of \<open>RESTRequest\<close>: the instance test returns
  true on it. On every constructed \<open>Identifier\<close> the test returns false. On every
  object of the module the test returns a boolean, true exactly when the object's
  class is not \<open>Identifier\<close>, and never an error.
\<close>

theorem isinstance_RESTRequest_classifies:
  "and_then (CreateDatabaseRequest_init n p)
     (\<lambda>c. isinstance (Obj_CreateDatabaseRequest c) C_RESTRequest) = Inr True \<and>
   and_then (AlterDatabaseRequest_init r u)
     (\<lambda>a. isinstance (Obj_AlterDatabaseRequest a) C_RESTRequest) = Inr True \<and>
   and_then (Identifier_init d ob)
     (\<lambda>i. isinstance (Obj_Identifier i) C_RESTRequest) = Inr False \<and>
   isinstance v C_RESTRequest = Inr (type_of v \<noteq> C_Identifier)"
proof -
  have "isinstance v C_RESTRequest = Inr (type_of v \<noteq> C_Identifier)"
    by (cases v) (simp_all add: isinstance_def mro_eqs)
  then show ?thesis
    by (simp add: CreateDatabaseRequest_init_def AlterDatabaseRequest_init_def
        Identifier_init_def isinstance_def mro_eqs)
qed

text \<open>
  C10. \<open>RESTRequest\<close> has \<open>ABC\<close> as its base but declares no abstract method, so
  \<open>RESTRequest()\<close> returns an instance. That instance passes the instance test against
  \<open>RESTRequest\<close> and is neither a \<open>CreateDatabaseRequest\<close> nor an
  \<open>AlterDatabaseRequest\<close>.
\<close>

theorem RESTRequest_instantiable:
  "RESTRequest_init = Inr Obj_RESTRequest \<and>
   isinstance Obj_RESTRequest C_RESTRequest = Inr True \<and>
   isinstance Obj_RESTRequest C_CreateDatabaseRequest = Inr False \<and>
   isinstance Obj_RESTRequest C_AlterDatabaseRequest = Inr False \<and>
   type_of Obj_RESTRequest \<noteq> C_CreateDatabaseRequest \<and>
   type_of Obj_RESTRequest \<noteq> C_AlterDatabaseRequest"
  by (simp add: RESTRequest_init_def isinstance_def mro_RESTRequest)

subsection \<open>Assignment and equality\<close>

text \<open>
  C6 says that no field of an instance can be changed after construction. After
  \<open>i = Identifier("sales", "orders")\<close>, the assignment \<open>i.database_name = "hr"\<close>
  succeeds and the instance has the new name.
\<close>

theorem Identifier_assignment_counterexample:
  "and_then (Identifier_init ''sales'' ''orders'') (\<lambda>i. set_database_name i ''hr'') =
     Inr \<lparr>database_name = ''hr'', object_name = ''orders''\<rparr>"
  by (simp add: Identifier_init_def set_database_name_def frozen_def)

text \<open>
  C6, as the code has it. Construction of an \<open>Identifier\<close>, a \<open>CreateDatabaseRequest\<close>
  or an \<open>AlterDatabaseRequest\<close> only returns the instance holding its arguments. The
  instances are not immutable: the dataclasses are not frozen, so assigning to any
  field of an instance succeeds, gives that field the new value and leaves the other
  field as it was.
\<close>

theorem fields_assignable:
  "Identifier_init d ob = Inr \<lparr>database_name = d, object_name = ob\<rparr> \<and>
   CreateDatabaseRequest_init n p = Inr \<lparr>name = n, properties = p\<rparr> \<and>
   AlterDatabaseRequest_init r u = Inr \<lparr>removals = r, updates = u\<rparr> \<and>
   set_database_name i s = Inr \<lparr>database_name = s, object_name = object_name i\<rparr> \<and>
   set_object_name i s = Inr \<lparr>database_name = database_name i, object_name = s\<rparr> \<and>
   set_name c s = Inr \<lparr>name = s, properties = properties c\<rparr> \<and>
   set_properties c m = Inr \<lparr>name = name c, properties = m\<rparr> \<and>
   set_removals a l = Inr \<lparr>removals = l, updates = updates a\<rparr> \<and>
   set_updates a m = Inr \<lparr>removals = removals a, updates = m\<rparr>"
  by (simp add: Identifier_init_def CreateDatabaseRequest_init_def
      AlterDatabaseRequest_init_def set_database_name_def set_object_name_def set_name_def
      set_properties_def set_removals_def set_updates_def frozen_def)

text \<open>
  C8. Equality is structural: two \<open>Identifier\<close> values, two \<open>CreateDatabaseRequest\<close>
  values or two \<open>AlterDatabaseRequest\<close> values compare equal with the generated
  \<open>__eq__\<close> if and only if all their corresponding fields are equal, that is, if and
  only if they are the same value.
\<close>

theorem dataclass_eq_structural:
  "(Identifier_eq i j \<longleftrightarrow>
      database_name i = database_name j \<and> object_name i = object_name j) \<and>
   (CreateDatabaseRequest_eq c e \<longleftrightarrow> name c = name e \<and> properties c = properties e) \<and>
   (AlterDatabaseRequest_eq a b \<longleftrightarrow> removals a = removals b \<and> updates a = updates b) \<and>
   (Identifier_eq i j \<longleftrightarrow> i = j) \<and>
   (CreateDatabaseRequest_eq c e \<longleftrightarrow> c = e) \<and>
   (AlterDatabaseRequest_eq a b \<longleftrightarrow> a = b)"
  by (auto simp add: Identifier_eq_def CreateDatabaseRequest_eq_def
      AlterDatabaseRequest_eq_def)

end
